theory Spec2Isabelle
  imports
    Main
    "HOL-Library.AList"
    "HOL-Library.Multiset"
    "HOL-Library.Char_ord"
    "HOL-Library.List_Lexorder"
    "HOL-Library.Word"
begin

section \<open>Data model of the configured-asset filesystem data connector\<close>

text \<open>
  The exceptions the modelled methods raise. \<open>NotInitialized\<close> is the \<open>ValueError\<close> raised
  while \<open>_data_references_cache is None\<close>; \<open>DataConnectorError\<close> is
  \<open>ge_exceptions.DataConnectorError\<close>, the class the sorter validation raises (the
  specification calls it a configuration error); \<open>NoDataReference\<close> is the \<open>ValueError\<close>
  of \<open>_generate_batch_spec_parameters_from_batch_definition\<close>; \<open>InvalidRequest\<close> stands
  for whatever the inherited \<open>_validate_batch_request\<close> raises; \<open>IndexError\<close> is Python's
  own, from \<open>batch_definitions[0]\<close> on an empty list.
\<close>

datatype error =
    NotInitialized
  | DataConnectorError
  | NoDataReference
  | InvalidRequest
  | IndexError

text \<open>
  \<open>default_regex\<close> is a dict read at the keys \<open>"pattern"\<close> and \<open>"group_names"\<close> only; the
  configuration schema gives it exactly these two entries.
\<close>

record regex_config =
  pattern :: string
  group_names :: "string list"

text \<open>An \<open>Asset\<close>: optional base directory, pattern and group names (\<open>None\<close> when not configured).\<close>

record asset =
  asset_base_directory :: "string option"
  asset_pattern :: "string option"
  asset_group_names :: "string list option"

text \<open>
  A \<open>BatchDefinition\<close>. The partition definition is a dict from group name to value, kept
  as an association list in insertion order.
\<close>

record batch_definition =
  bd_execution_environment_name :: string
  bd_data_connector_name :: string
  bd_data_asset_name :: "string option"
  partition_definition :: "(string \<times> string) list"

text \<open>A \<open>BatchRequest\<close>; \<open>'q\<close> is the type of partition requests.\<close>

record 'q batch_request =
  br_execution_environment_name :: string
  br_data_connector_name :: string
  br_data_asset_name :: "string option"
  partition_request :: "'q option"

text \<open>
  Modelled from the spec: the class \<open>Sorter\<close> is not among the sources. The specification
  describes it as a named comparator bound to one partition-identity field, with a
  direction and a type-specific comparison rule. \<open>sorter_rule\<close> is that rule: it turns
  the value found under the field (\<open>None\<close> when the field is missing) into a key of a
  linearly ordered type; \<open>sorter_reverse\<close> is the direction (\<open>True\<close> for descending).
\<close>

record 'k sorter =
  sorter_name :: string
  sorter_reverse :: bool
  sorter_rule :: "string option \<Rightarrow> 'k"

text \<open>
  The two-level cache: asset name to (data reference to optional list of batch
  definitions). Both levels are Python dicts, which keep insertion order and overwrite in
  place; they are association lists changed with \<open>AList.update\<close> only.
\<close>

type_synonym sub_cache = "(string \<times> batch_definition list option) list"
type_synonym references_cache = "(string \<times> sub_cache) list"

text \<open>
  The connector object. \<open>base_directory\<close> is the already normalised directory (the value of
  the property \<open>base_directory\<close>); \<open>sorters\<close> is the dict from sorter name to sorter that
  \<open>build_sorters_from_config\<close> returns; \<open>data_references_cache\<close> is \<open>None\<close> until
  \<open>_refresh_data_references_cache\<close> has run.
\<close>

record 'k connector =
  name :: string
  execution_environment_name :: string
  base_directory :: string
  glob_directive :: string
  default_regex :: regex_config
  assets :: "(string \<times> asset) list"
  sorters :: "(string \<times> 'k sorter) list"
  data_references_cache :: "references_cache option"

text \<open>
  The collaborators that the connector calls and that are not among the sources. Each is
  a parameter of the model, so every theorem below holds for all of them unless it
  states a hypothesis about one. They carry the names the source calls them by:
  \<open>get_filesystem_one_level_directory_glob_path_list base glob\<close> is the only access to
  the file system; the two regex helpers take the pattern and the group names last;
  \<open>validate_batch_request\<close> is the inherited \<open>_validate_batch_request\<close> (\<open>True\<close> when it
  returns, \<open>False\<close> when it raises); \<open>select_from_partition_request q\<close> is
  \<open>build_partition_query(q).select_from_partition_request\<close>.
\<close>

record ('k, 'q) collaborators =
  get_filesystem_one_level_directory_glob_path_list :: "string \<Rightarrow> string \<Rightarrow> string list"
  map_data_reference_string_to_batch_definition_list_using_regex ::
    "string \<Rightarrow> string \<Rightarrow> string option \<Rightarrow> string \<Rightarrow> string \<Rightarrow> string list
      \<Rightarrow> batch_definition list option"
  map_batch_definition_to_data_reference_string_using_regex ::
    "batch_definition \<Rightarrow> string \<Rightarrow> string list \<Rightarrow> string option"
  validate_batch_request :: "'k connector \<Rightarrow> 'q batch_request \<Rightarrow> bool"
  batch_definition_matches_batch_request :: "batch_definition \<Rightarrow> 'q batch_request \<Rightarrow> bool"
  select_from_partition_request :: "'q \<Rightarrow> batch_definition list \<Rightarrow> batch_definition list"

section \<open>The connector's methods\<close>

text \<open>Python truthiness of an optional string or list: \<open>None\<close> and the empty value are false.\<close>

definition truthy :: "'a list option \<Rightarrow> bool" where
  "truthy v = (case v of None \<Rightarrow> False | Some xs \<Rightarrow> xs \<noteq> [])"

text \<open>
  \<open>str(Path(a).joinpath(b))\<close>: an absolute \<open>b\<close> replaces \<open>a\<close>, a relative one is appended
  after a separator. The normalisation that \<open>pathlib\<close> performs besides (doubled or
  trailing separators, \<open>.\<close> components) is not modelled.
\<close>

definition joinpath :: "string \<Rightarrow> string \<Rightarrow> string" where
  "joinpath a b = (case b of CHR ''/'' # _ \<Rightarrow> b | _ \<Rightarrow> a @ ''/'' @ b)"

definition get_available_data_asset_names :: "'k connector \<Rightarrow> string list" where
  "get_available_data_asset_names c = map fst (assets c)"

text \<open>
  The block \<open>regex_config = copy.deepcopy(self._default_regex)\<close> followed by the asset's
  overrides, as it stands in \<open>_map_data_reference_to_batch_definition_list\<close> and in
  \<open>_map_batch_definition_to_data_reference\<close>. It works on a copy: the connector is not
  changed.
\<close>

definition override_the_defaults :: "'k connector \<Rightarrow> string option \<Rightarrow> regex_config" where
  "override_the_defaults c data_asset_name =
     (let regex_config = default_regex c in
      case data_asset_name of
        None \<Rightarrow> regex_config
      | Some n \<Rightarrow>
          (case map_of (assets c) n of
             None \<Rightarrow> regex_config
           | Some a \<Rightarrow>
               (let rc1 = (if truthy (asset_pattern a)
                           then regex_config\<lparr>pattern := the (asset_pattern a)\<rparr>
                           else regex_config)
                in if truthy (asset_group_names a)
                   then rc1\<lparr>group_names := the (asset_group_names a)\<rparr>
                   else rc1)))"

definition map_data_reference_to_batch_definition_list ::
  "('k, 'q) collaborators \<Rightarrow> 'k connector \<Rightarrow> string \<Rightarrow> string option
    \<Rightarrow> batch_definition list option" where
  "map_data_reference_to_batch_definition_list ext c data_reference data_asset_name =
     (let regex_config = override_the_defaults c data_asset_name in
      map_data_reference_string_to_batch_definition_list_using_regex ext (execution_environment_name c) (name c)
        data_asset_name data_reference (pattern regex_config) (group_names regex_config))"

definition map_batch_definition_to_data_reference ::
  "('k, 'q) collaborators \<Rightarrow> 'k connector \<Rightarrow> batch_definition \<Rightarrow> string option" where
  "map_batch_definition_to_data_reference ext c bd =
     (let regex_config = override_the_defaults c (bd_data_asset_name bd) in
      map_batch_definition_to_data_reference_string_using_regex ext bd (pattern regex_config) (group_names regex_config))"

definition get_data_reference_list ::
  "('k, 'q) collaborators \<Rightarrow> 'k connector \<Rightarrow> string option \<Rightarrow> string list" where
  "get_data_reference_list ext c data_asset_name =
     (let data_asset_path =
        (case data_asset_name of
           None \<Rightarrow> base_directory c
         | Some n \<Rightarrow>
             (case map_of (assets c) n of
                None \<Rightarrow> base_directory c
              | Some a \<Rightarrow>
                  if truthy (asset_base_directory a)
                  then joinpath (base_directory c) (the (asset_base_directory a))
                  else base_directory c))
      in get_filesystem_one_level_directory_glob_path_list ext data_asset_path (glob_directive c))"

text \<open>
  The inner loop of \<open>_refresh_data_references_cache\<close> for one asset: starting from the
  empty dict, each listed reference is stored with its mapped list.
\<close>

definition asset_sub_cache ::
  "('k, 'q) collaborators \<Rightarrow> 'k connector \<Rightarrow> string \<Rightarrow> sub_cache" where
  "asset_sub_cache ext c data_asset_name =
     fold (\<lambda>data_reference sub.
             AList.update data_reference
               (map_data_reference_to_batch_definition_list ext c data_reference
                  (Some data_asset_name)) sub)
          (get_data_reference_list ext c (Some data_asset_name)) []"

definition refresh_data_references_cache ::
  "('k, 'q) collaborators \<Rightarrow> 'k connector \<Rightarrow> 'k connector" where
  "refresh_data_references_cache ext c =
     c\<lparr>data_references_cache :=
         Some (fold (\<lambda>data_asset_name cache.
                       AList.update data_asset_name
                         (asset_sub_cache ext c data_asset_name) cache)
                    (get_available_data_asset_names c) [])\<rparr>"

definition get_data_reference_list_count :: "'k connector \<Rightarrow> error + nat" where
  "get_data_reference_list_count c =
     (case data_references_cache c of
        None \<Rightarrow> Inl NotInitialized
      | Some cache \<Rightarrow>
          Inr (fold (\<lambda>(data_asset_name, sub) total_references. total_references + length sub)
                 cache 0))"

definition get_unmatched_data_references :: "'k connector \<Rightarrow> error + string list" where
  "get_unmatched_data_references c =
     (case data_references_cache c of
        None \<Rightarrow> Inl NotInitialized
      | Some cache \<Rightarrow>
          Inr (fold (\<lambda>(data_asset_name, sub) unmatched.
                       unmatched @ map fst (filter (\<lambda>(k, v). v = None) sub))
                 cache []))"

text \<open>
  \<open>_validate_sorters_configuration\<close>. \<open>regex_config = self._default_regex\<close> binds the
  connector's own dict, so the assignment to \<open>regex_config["group_names"]\<close> writes into
  \<open>self._default_regex\<close>; the connector is returned with that write, also when the method
  raises afterwards. Iterating over the dict \<open>self.sorters\<close> yields the sorter names.
\<close>

definition validate_sorters_configuration ::
  "'k connector \<Rightarrow> 'q batch_request \<Rightarrow> (error + unit) \<times> 'k connector" where
  "validate_sorters_configuration c batch_request =
     (if length (sorters c) > 0 then
        (let c1 =
           (case br_data_asset_name batch_request of
              None \<Rightarrow> c
            | Some n \<Rightarrow>
                (case map_of (assets c) n of
                   None \<Rightarrow> c
                 | Some a \<Rightarrow>
                     if truthy (asset_group_names a)
                     then c\<lparr>default_regex :=
                            (default_regex c)\<lparr>group_names := the (asset_group_names a)\<rparr>\<rparr>
                     else c));
             group_names = group_names (default_regex c1)
         in if list_ex (\<lambda>sorter. sorter \<notin> set group_names) (map fst (sorters c))
            then (Inl DataConnectorError, c1)
            else if length group_names < length (sorters c)
            then (Inl DataConnectorError, c1)
            else (Inr (), c1))
      else (Inr (), c))"

text \<open>
  Modelled from the spec: \<open>Sorter.get_sorted_batch_definitions\<close> is not among the sources.
  The specification makes each pass a stable sort on the sorter's field, ascending or
  descending. \<open>sorter_key\<close> is the key of a batch definition, \<open>sorter_before\<close> the order of
  two keys in the sorter's direction, and the pass is the stable insertion sort: an
  element is put in front of the first element that it does not have to follow, so
  elements with equal keys keep their order.
\<close>

definition sorter_key :: "'k sorter \<Rightarrow> batch_definition \<Rightarrow> 'k" where
  "sorter_key s bd = sorter_rule s (map_of (partition_definition bd) (sorter_name s))"

definition sorter_before :: "('k::linorder) sorter \<Rightarrow> batch_definition \<Rightarrow> batch_definition \<Rightarrow> bool" where
  "sorter_before s a b =
     (if sorter_reverse s then sorter_key s b \<le> sorter_key s a
      else sorter_key s a \<le> sorter_key s b)"

fun insert_stable ::
  "('k::linorder) sorter \<Rightarrow> batch_definition \<Rightarrow> batch_definition list \<Rightarrow> batch_definition list" where
  "insert_stable s x [] = [x]"
| "insert_stable s x (y # ys) =
     (if sorter_before s x y then x # y # ys else y # insert_stable s x ys)"

definition get_sorted_batch_definitions ::
  "('k::linorder) sorter \<Rightarrow> batch_definition list \<Rightarrow> batch_definition list" where
  "get_sorted_batch_definitions s batch_definitions = foldr (insert_stable s) batch_definitions []"

text \<open>
  \<open>_sort_batch_definition_list\<close>: the sorters, in the order of \<open>self.sorters.values()\<close>, are
  reversed and applied one after the other.
\<close>

definition sort_batch_definition_list ::
  "('k::linorder) connector \<Rightarrow> batch_definition list \<Rightarrow> batch_definition list" where
  "sort_batch_definition_list c batch_definition_list =
     fold get_sorted_batch_definitions (rev (map snd (sorters c))) batch_definition_list"

text \<open>
  The comprehension \<open>[batch_definitions[0] for ... if batch_definitions is not None]\<close> over
  the values of the sub-caches: \<open>None\<close> is skipped, an empty list raises \<open>IndexError\<close>.
\<close>

fun first_batch_definitions ::
  "batch_definition list option list \<Rightarrow> error + batch_definition list" where
  "first_batch_definitions [] = Inr []"
| "first_batch_definitions (None # vs) = first_batch_definitions vs"
| "first_batch_definitions (Some [] # vs) = Inl IndexError"
| "first_batch_definitions (Some (b # bs) # vs) =
     (case first_batch_definitions vs of Inl e \<Rightarrow> Inl e | Inr r \<Rightarrow> Inr (b # r))"

definition cache_values :: "references_cache \<Rightarrow> batch_definition list option list" where
  "cache_values cache = concat (map (\<lambda>(data_asset_name, sub). map snd sub) cache)"

definition get_batch_definition_list_from_batch_request ::
  "('k::linorder, 'q) collaborators \<Rightarrow> 'k connector \<Rightarrow> 'q batch_request
    \<Rightarrow> (error + batch_definition list) \<times> 'k connector" where
  "get_batch_definition_list_from_batch_request ext c batch_request =
     (if \<not> validate_batch_request ext c batch_request then (Inl InvalidRequest, c)
      else
        case validate_sorters_configuration c batch_request of
          (Inl e, c1) \<Rightarrow> (Inl e, c1)
        | (Inr u, c1) \<Rightarrow>
            (let c2 = (if data_references_cache c1 = None
                       then refresh_data_references_cache ext c1 else c1)
             in case first_batch_definitions (cache_values (the (data_references_cache c2))) of
                  Inl e \<Rightarrow> (Inl e, c2)
                | Inr candidates \<Rightarrow>
                    (let l1 = filter (\<lambda>bd. batch_definition_matches_batch_request ext bd batch_request) candidates;
                         l2 = (case partition_request batch_request of
                                 None \<Rightarrow> l1
                               | Some q \<Rightarrow> select_from_partition_request ext q l1)
                     in if length (sorters c2) > 0
                        then (Inr (sort_batch_definition_list c2 l2), c2)
                        else (Inr l2, c2))))"

text \<open>
  \<open>_generate_batch_spec_parameters_from_batch_definition\<close>: the reference of the batch
  definition, joined onto \<open>self.base_directory\<close>; no reference raises. The dict
  \<open>{"path": path}\<close> is its one value.
\<close>

definition generate_batch_spec_parameters_from_batch_definition ::
  "('k, 'q) collaborators \<Rightarrow> 'k connector \<Rightarrow> batch_definition \<Rightarrow> error + string" where
  "generate_batch_spec_parameters_from_batch_definition ext c bd =
     (let path = map_batch_definition_to_data_reference ext c bd in
      if \<not> truthy path then Inl NoDataReference
      else Inr (joinpath (base_directory c) (the path)))"

text \<open>
  Modelled from the spec: the inherited \<open>DataConnector.build_batch_spec\<close>, which the
  connector's \<open>build_batch_spec\<close> calls and wraps in a \<open>PathBatchSpec\<close>, is not among the
  sources. Per the specification the operation resolves the reference, joins it onto the
  directory and returns a path-flavoured batch spec: it is the generated parameters,
  errors included.
\<close>

definition build_batch_spec ::
  "('k, 'q) collaborators \<Rightarrow> 'k connector \<Rightarrow> batch_definition \<Rightarrow> error + string" where
  "build_batch_spec ext c bd = generate_batch_spec_parameters_from_batch_definition ext c bd"

section \<open>The expectation \<open>expect_column_values_to_be_decreasing\<close>\<close>



text \<open>The exceptions that the arithmetic of \<open>_validates\<close> can raise.\<close>

datatype py_error = TypeError | ZeroDivisionError

text \<open>A metric value: a count, or a list of values or of indexes.\<close>

datatype 'a metric_value = Count int | Listed "'a list"

text \<open>The keyword arguments that \<open>_validates\<close> passes to \<open>_format_map_output\<close>.\<close>

record 'a map_output =
  success :: bool
  element_count :: "'a metric_value option"
  nonnull_count :: int
  unexpected_count :: int
  unexpected_list :: "'a metric_value option"
  unexpected_index_list :: "'a metric_value option"

text \<open>
  The result format: the entry of a non-empty \<open>runtime_configuration\<close>, else the default
  of the expectation.
\<close>

definition result_format_of :: "(string \<times> 'f) list option \<Rightarrow> 'f \<Rightarrow> 'f" where
  "result_format_of runtime_configuration default_result_format =
     (if truthy runtime_configuration
      then (case map_of (the runtime_configuration) ''result_format'' of
              None \<Rightarrow> default_result_format
            | Some f \<Rightarrow> f)
      else default_result_format)"

text \<open>
  \<open>ExpectColumnValuesToBeDecreasing._validates\<close>, from the extracted \<open>metric_vals\<close> on.
  \<open>metric_vals.get(k)\<close> is \<open>metric_vals k\<close>. Parameters, for what is not among the sources
  or is floating-point arithmetic: \<open>ratio_at_least d n mostly\<close> is the Python value of
  \<open>d / n >= mostly\<close> for a non-zero \<open>n\<close>; \<open>format_output\<close> is \<open>_format_map_output\<close> applied
  to the parsed result format and the keyword arguments. The division raises \<open>TypeError\<close>
  on an operand that is not a number and \<open>ZeroDivisionError\<close> on a zero divisor.
\<close>

definition validates ::
  "(int \<Rightarrow> int \<Rightarrow> 'm \<Rightarrow> bool) \<Rightarrow> ('f \<Rightarrow> 'a map_output \<Rightarrow> 'r) \<Rightarrow> 'm \<Rightarrow> 'f
    \<Rightarrow> (string \<times> 'f) list option \<Rightarrow> (string \<Rightarrow> 'a metric_value option) \<Rightarrow> py_error + 'r" where
  "validates ratio_at_least format_output mostly default_result_format
       runtime_configuration metric_vals =
     (let result_format = result_format_of runtime_configuration default_result_format in
      case (metric_vals ''column_values.decreasing.count'',
            metric_vals ''column_values.nonnull.count'') of
        (Some (Count d), Some (Count n)) \<Rightarrow>
          if n = 0 then Inl ZeroDivisionError
          else Inr (format_output result_format
                 \<lparr>success = ratio_at_least d n mostly,
                  element_count = metric_vals ''column_values.count'',
                  nonnull_count = n,
                  unexpected_count = n - d,
                  unexpected_list = metric_vals ''column_values.decreasing.unexpected_values'',
                  unexpected_index_list =
                    metric_vals ''column_values.increasing.unexpected_index_list''\<rparr>)
      | _ \<Rightarrow> Inl TypeError)"

section \<open>The order that a sequence of sorters asks for\<close>

text \<open>
  The order that the claim about sorting words: \<open>sorters_before ss a b\<close> says that \<open>a\<close>
  may stand before \<open>b\<close> when the first sorter of \<open>ss\<close> on whose key they differ puts \<open>a\<close>
  first (a smaller key if ascending, a greater key if descending); elements that agree
  on every key may stand in either order. \<open>tied ss a b\<close> says that \<open>a\<close> and \<open>b\<close> agree on
  the key of every sorter.
\<close>

fun sorters_before ::
  "('k::linorder) sorter list \<Rightarrow> batch_definition \<Rightarrow> batch_definition \<Rightarrow> bool" where
  "sorters_before [] a b = True"
| "sorters_before (s # ss) a b =
     (if sorter_key s a = sorter_key s b then sorters_before ss a b
      else if sorter_reverse s then sorter_key s b < sorter_key s a
      else sorter_key s a < sorter_key s b)"

definition tied :: "('k::linorder) sorter list \<Rightarrow> batch_definition \<Rightarrow> batch_definition \<Rightarrow> bool" where
  "tied ss a b = list_all (\<lambda>s. sorter_key s a = sorter_key s b) ss"

section \<open>The effective group names of a request\<close>

text \<open>
  The group names in force for the asset of a request: the asset's own when it
  configures some, else the connector's default, as the copying block resolves them.
\<close>

definition effective_group_names :: "'k connector \<Rightarrow> 'q batch_request \<Rightarrow> string list" where
  "effective_group_names c batch_request =
     group_names (override_the_defaults c (br_data_asset_name batch_request))"

section \<open>Example configurations\<close>

text \<open>
  The sorter example of the specification: sorters \<open>A\<close> descending, then \<open>B\<close> ascending,
  both comparing the field's text.
\<close>

definition ex_sorters :: "(string \<times> string sorter) list" where
  "ex_sorters =
     [(''A'', \<lparr>sorter_name = ''A'', sorter_reverse = True, sorter_rule = (\<lambda>v. case v of None \<Rightarrow> [] | Some x \<Rightarrow> x)\<rparr>),
      (''B'', \<lparr>sorter_name = ''B'', sorter_reverse = False, sorter_rule = (\<lambda>v. case v of None \<Rightarrow> [] | Some x \<Rightarrow> x)\<rparr>)]"

definition ex_record :: "string \<Rightarrow> string \<Rightarrow> batch_definition" where
  "ex_record a b = \<lparr>bd_execution_environment_name = ''env'', bd_data_connector_name = ''conn'',
      bd_data_asset_name = Some ''asset'', partition_definition = [(''A'', a), (''B'', b)]\<rparr>"

definition ex_connector :: "string connector" where
  "ex_connector = \<lparr>name = ''conn'', execution_environment_name = ''env'', base_directory = ''/data'',
     glob_directive = ''*'', default_regex = \<lparr>pattern = ''(.+)-(.+)'', group_names = [''A'', ''B'']\<rparr>,
     assets = [], sorters = ex_sorters, data_references_cache = None\<rparr>"

text \<open>
  Stand-ins for the regex helpers at the pattern \<open>(.+)-(.+)\.csv\<close>: a reference
  \<open>a-b.csv\<close> gives one batch definition whose partition definition pairs the group names
  with \<open>a\<close> and \<open>b\<close>, any other reference does not match; a batch definition goes back
  to the reference by filling its two group values into \<open>a-b.csv\<close>.
\<close>

definition ex_map_reference ::
  "string \<Rightarrow> string \<Rightarrow> string option \<Rightarrow> string \<Rightarrow> string \<Rightarrow> string list
     \<Rightarrow> batch_definition list option" where
  "ex_map_reference env conn asset_name ref pat groups =
     (let a = takeWhile (\<lambda>ch. ch \<noteq> CHR ''-'') ref;
          rest = drop (length a + 1) ref;
          b = take (length rest - 4) rest
      in if length a < length ref \<and> a \<noteq> [] \<and> b \<noteq> [] \<and> drop (length rest - 4) rest = ''.csv''
         then Some [\<lparr>bd_execution_environment_name = env, bd_data_connector_name = conn,
                     bd_data_asset_name = asset_name, partition_definition = zip groups [a, b]\<rparr>]
         else None)"

definition ex_map_definition :: "batch_definition \<Rightarrow> string \<Rightarrow> string list \<Rightarrow> string option" where
  "ex_map_definition bd pat groups =
     (case map (map_of (partition_definition bd)) groups of
        [Some a, Some b] \<Rightarrow> Some (a @ ''-'' @ b @ ''.csv'')
      | _ \<Rightarrow> None)"

text \<open>
  A store with three entries under \<open>/data/sub\<close> and one under \<open>/data\<close>; every request is
  valid, a batch definition matches a request of its asset, the partition query keeps
  the list.
\<close>

definition ex_collaborators :: "(string, unit) collaborators" where
  "ex_collaborators =
     \<lparr>get_filesystem_one_level_directory_glob_path_list = (\<lambda>base glob.
          if base = ''/data/sub'' then [''1-2.csv'', ''1-1.csv'', ''readme'']
          else if base = ''/data'' then [''2-5.csv''] else []),
      map_data_reference_string_to_batch_definition_list_using_regex = ex_map_reference,
      map_batch_definition_to_data_reference_string_using_regex = ex_map_definition,
      validate_batch_request = (\<lambda>c r. True),
      batch_definition_matches_batch_request = (\<lambda>bd r. bd_data_asset_name bd = br_data_asset_name r),
      select_from_partition_request = (\<lambda>q xs. xs)\<rparr>"

text \<open>The same collaborators over a store that lists nothing.\<close>

definition ex_empty_store :: "(string, unit) collaborators" where
  "ex_empty_store =
     ex_collaborators\<lparr>get_filesystem_one_level_directory_glob_path_list := (\<lambda>base glob. [])\<rparr>"

text \<open>
  Three assets: \<open>alpha\<close> has its own directory and its own group names, \<open>beta\<close> overrides
  nothing, \<open>gamma\<close> has group names that no sorter is bound to.
\<close>

definition ex_assets :: "(string \<times> asset) list" where
  "ex_assets =
     [(''alpha'', \<lparr>asset_base_directory = Some ''sub'', asset_pattern = None,
                   asset_group_names = Some [''B'', ''A'']\<rparr>),
      (''beta'', \<lparr>asset_base_directory = None, asset_pattern = None, asset_group_names = None\<rparr>),
      (''gamma'', \<lparr>asset_base_directory = None, asset_pattern = None,
                   asset_group_names = Some [''year'']\<rparr>)]"

definition ex_request :: "string \<Rightarrow> unit batch_request" where
  "ex_request asset_name =
     \<lparr>br_execution_environment_name = ''env'', br_data_connector_name = ''conn'',
      br_data_asset_name = Some asset_name, partition_request = None\<rparr>"

definition ex_connector_assets :: "string connector" where
  "ex_connector_assets = ex_connector\<lparr>assets := ex_assets\<rparr>"

text \<open>The batch definition that the reference \<open>1-2.csv\<close> of asset \<open>alpha\<close> maps to.\<close>

definition ex_alpha_definition :: batch_definition where
  "ex_alpha_definition =
     \<lparr>bd_execution_environment_name = ''env'', bd_data_connector_name = ''conn'',
      bd_data_asset_name = Some ''alpha'', partition_definition = [(''B'', ''1''), (''A'', ''2'')]\<rparr>"

text \<open>Metric values with different index lists under the increasing and the decreasing key.\<close>

definition ex_metric_vals :: "string \<Rightarrow> nat metric_value option" where
  "ex_metric_vals =
     map_of [(''column_values.decreasing.count'', Count 3),
             (''column_values.nonnull.count'', Count 4),
             (''column_values.count'', Count 5),
             (''column_values.decreasing.unexpected_values'', Listed [9]),
             (''column_values.increasing.unexpected_index_list'', Listed [7]),
             (''column_values.decreasing.unexpected_index_list'', Listed [2])]"

text \<open>
  A second configuration: two assets on the one directory \<open>/data\<close>, no sorters. Asset
  \<open>dash\<close> uses the default pattern, asset \<open>underscore\<close> its own. The stand-in for the
  forward helper splits a reference \<open>a-b.csv\<close> at the dash, and at the underscore under
  the pattern \<open>(.+)_(.+)\<close>; the directory holds one file of each kind.
\<close>

definition ex_map_reference_by_pattern ::
  "string \<Rightarrow> string \<Rightarrow> string option \<Rightarrow> string \<Rightarrow> string \<Rightarrow> string list
     \<Rightarrow> batch_definition list option" where
  "ex_map_reference_by_pattern env conn asset_name ref pat groups =
     (let sep = (if pat = ''(.+)_(.+)'' then CHR ''_'' else CHR ''-'');
          a = takeWhile (\<lambda>ch. ch \<noteq> sep) ref;
          rest = drop (length a + 1) ref;
          b = take (length rest - 4) rest
      in if length a < length ref \<and> a \<noteq> [] \<and> b \<noteq> [] \<and> drop (length rest - 4) rest = ''.csv''
         then Some [\<lparr>bd_execution_environment_name = env, bd_data_connector_name = conn,
                     bd_data_asset_name = asset_name, partition_definition = zip groups [a, b]\<rparr>]
         else None)"

definition ex_shared_collaborators :: "(string, unit) collaborators" where
  "ex_shared_collaborators =
     \<lparr>get_filesystem_one_level_directory_glob_path_list = (\<lambda>base glob.
          if base = ''/data'' then [''1-2.csv'', ''3_4.csv''] else []),
      map_data_reference_string_to_batch_definition_list_using_regex =
        ex_map_reference_by_pattern,
      map_batch_definition_to_data_reference_string_using_regex = ex_map_definition,
      validate_batch_request = (\<lambda>c r. True),
      batch_definition_matches_batch_request =
        (\<lambda>bd r. bd_data_asset_name bd = br_data_asset_name r),
      select_from_partition_request = (\<lambda>q xs. xs)\<rparr>"

definition ex_shared_connector :: "string connector" where
  "ex_shared_connector =
     \<lparr>name = ''conn'', execution_environment_name = ''env'', base_directory = ''/data'',
      glob_directive = ''*'',
      default_regex = \<lparr>pattern = ''(.+)-(.+)'', group_names = [''A'', ''B'']\<rparr>,
      assets =
        [(''dash'', \<lparr>asset_base_directory = None, asset_pattern = None,
                     asset_group_names = None\<rparr>),
         (''underscore'', \<lparr>asset_base_directory = None, asset_pattern = Some ''(.+)_(.+)'',
                           asset_group_names = None\<rparr>)],
      sorters = [], data_references_cache = None\<rparr>"

text \<open>The batch definition that the reference \<open>1-2.csv\<close> of asset \<open>dash\<close> maps to.\<close>

definition ex_dash_definition :: batch_definition where
  "ex_dash_definition =
     \<lparr>bd_execution_environment_name = ''env'', bd_data_connector_name = ''conn'',
      bd_data_asset_name = Some ''dash'', partition_definition = [(''A'', ''1''), (''B'', ''2'')]\<rparr>"

text \<open>
  The first configuration with the default group names \<open>X, Y\<close>, to which no sorter is
  bound.
\<close>

definition ex_connector_xy :: "string connector" where
  "ex_connector_xy =
     ex_connector_assets\<lparr>default_regex := \<lparr>pattern = ''(.+)-(.+)'', group_names = [''X'', ''Y'']\<rparr>\<rparr>"

section \<open>Dicts built by repeated assignment\<close>

lemma set_update_consistent:
  "\<forall>(k', v') \<in> set m. k' = k \<longrightarrow> v' = v \<Longrightarrow> set (AList.update k v m) = insert (k, v) (set m)"
  by (induction m) auto

lemma fold_update_set:
  "\<forall>(k, v) \<in> set m. v = f k \<Longrightarrow>
   set (fold (\<lambda>k m. AList.update k (f k) m) ks m) = set m \<union> (\<lambda>k. (k, f k)) ` set ks"
proof (induction ks arbitrary: m)
  case Nil
  then show ?case by simp
next
  case (Cons k ks)
  have s: "set (AList.update k (f k) m) = insert (k, f k) (set m)"
    using Cons.prems by (intro set_update_consistent) auto
  have "\<forall>(k', v) \<in> set (AList.update k (f k) m). v = f k'"
    using Cons.prems unfolding s by auto
  from Cons.IH [OF this] show ?case
    unfolding s by auto
qed

lemma fold_update_distinct:
  "distinct (map fst m) \<Longrightarrow> distinct (map fst (fold (\<lambda>k m. AList.update k (f k) m) ks m))"
  by (induction ks arbitrary: m) (simp_all add: distinct_update)

lemma fold_update_keys:
  "fst ` set (fold (\<lambda>k m. AList.update k (f k) m) ks m) = fst ` set m \<union> set ks"
  by (induction ks arbitrary: m) (auto simp: dom_update)

lemma refresh_cache_set:
  "data_references_cache (refresh_data_references_cache ext c) = Some cache \<Longrightarrow>
   set cache = (\<lambda>a. (a, asset_sub_cache ext c a)) ` set (get_available_data_asset_names c)"
  unfolding refresh_data_references_cache_def
  using fold_update_set [of "[]" "asset_sub_cache ext c" "get_available_data_asset_names c"]
  by auto

lemma refresh_cache_distinct:
  "data_references_cache (refresh_data_references_cache ext c) = Some cache \<Longrightarrow>
   distinct (map fst cache)"
  unfolding refresh_data_references_cache_def
  using fold_update_distinct [of "[]" "asset_sub_cache ext c" "get_available_data_asset_names c"]
  by auto

lemma sub_cache_set:
  "set (asset_sub_cache ext c a) =
     (\<lambda>r. (r, map_data_reference_to_batch_definition_list ext c r (Some a)))
       ` set (get_data_reference_list ext c (Some a))"
  unfolding asset_sub_cache_def
  using fold_update_set [of "[]" "\<lambda>r. map_data_reference_to_batch_definition_list ext c r (Some a)"
      "get_data_reference_list ext c (Some a)"]
  by auto

lemma sub_cache_distinct: "distinct (map fst (asset_sub_cache ext c a))"
  unfolding asset_sub_cache_def
  using fold_update_distinct [of "[]" "\<lambda>r. map_data_reference_to_batch_definition_list ext c r (Some a)"
      "get_data_reference_list ext c (Some a)"]
  by auto

lemma sub_cache_length:
  "length (asset_sub_cache ext c a) = card (set (get_data_reference_list ext c (Some a)))"
proof -
  have "length (asset_sub_cache ext c a) = length (map fst (asset_sub_cache ext c a))" by simp
  also have "\<dots> = card (set (map fst (asset_sub_cache ext c a)))"
    using sub_cache_distinct by (metis distinct_card)
  also have "set (map fst (asset_sub_cache ext c a)) = set (get_data_reference_list ext c (Some a))"
    by (simp add: sub_cache_set image_image)
  finally show ?thesis .
qed


lemma override_frame:
  "override_the_defaults (c\<lparr>data_references_cache := x\<rparr>) n = override_the_defaults c n"
  by (simp add: override_the_defaults_def Let_def split: option.splits)

lemma map_reference_frame:
  "map_data_reference_to_batch_definition_list ext (c\<lparr>data_references_cache := x\<rparr>) r n
     = map_data_reference_to_batch_definition_list ext c r n"
  by (simp add: map_data_reference_to_batch_definition_list_def override_frame)

lemma reference_list_frame:
  "get_data_reference_list ext (c\<lparr>data_references_cache := x\<rparr>) n = get_data_reference_list ext c n"
  by (simp add: get_data_reference_list_def Let_def split: option.splits)

lemma sub_cache_frame:
  "asset_sub_cache ext (c\<lparr>data_references_cache := x\<rparr>) a = asset_sub_cache ext c a"
  by (simp add: asset_sub_cache_def map_reference_frame reference_list_frame)

lemma names_frame:
  "get_available_data_asset_names (c\<lparr>data_references_cache := x\<rparr>) = get_available_data_asset_names c"
  by (simp add: get_available_data_asset_names_def)

lemma refresh_unfold:
  "refresh_data_references_cache ext c = c\<lparr>data_references_cache := data_references_cache (refresh_data_references_cache ext c)\<rparr>"
  by (simp add: refresh_data_references_cache_def)

section \<open>Refreshing the cache\<close>

text \<open>
  Claim C7 (refresh idempotence). With the store (the results of the listing) and the
  configuration fixed, a second call of \<open>_refresh_data_references_cache\<close> right after the
  first leaves the connector, and so its cache, exactly as the first call left it: the
  same asset keys, the same reference keys under each asset and the same list of batch
  definitions under each pair. The cache that a refresh builds does not depend on the
  cache it finds.
\<close>

theorem refresh_idempotent:
  "refresh_data_references_cache ext (refresh_data_references_cache ext c)
     = refresh_data_references_cache ext c
   \<and> data_references_cache (refresh_data_references_cache ext (c\<lparr>data_references_cache := x\<rparr>))
     = data_references_cache (refresh_data_references_cache ext c)"
proof -
  have any: "refresh_data_references_cache ext (c\<lparr>data_references_cache := y\<rparr>)
        = refresh_data_references_cache ext c" for y
    unfolding refresh_data_references_cache_def [of ext "c\<lparr>data_references_cache := y\<rparr>"]
      sub_cache_frame names_frame
    by (simp add: refresh_data_references_cache_def)
  have "refresh_data_references_cache ext (refresh_data_references_cache ext c)
        = refresh_data_references_cache ext c"
    using any [of "data_references_cache (refresh_data_references_cache ext c)"]
      refresh_unfold [of ext c] by simp
  then show ?thesis using any [of x] by simp
qed

section \<open>The metric \<open>column_values.decreasing\<close>\<close>







section \<open>Sorting batch definitions\<close>

lemma get_sorted_Cons:
  "get_sorted_batch_definitions s (x # xs) = insert_stable s x (get_sorted_batch_definitions s xs)"
  by (simp add: get_sorted_batch_definitions_def)

lemma get_sorted_Nil: "get_sorted_batch_definitions s [] = []"
  by (simp add: get_sorted_batch_definitions_def)

lemma mset_insert_stable: "mset (insert_stable s x ys) = add_mset x (mset ys)"
  by (induction ys) auto

lemma mset_get_sorted: "mset (get_sorted_batch_definitions s xs) = mset xs"
  by (induction xs) (simp_all add: get_sorted_Nil get_sorted_Cons mset_insert_stable)

lemma set_get_sorted: "set (get_sorted_batch_definitions s xs) = set xs"
  using mset_get_sorted [of s xs] by (metis set_mset_mset)

lemma sorters_before_imp_before:
  "sorters_before (s # ss) a b \<Longrightarrow> sorter_before s a b"
  by (auto simp: sorter_before_def split: if_splits)

lemma before_trans:
  "sorter_before s a b \<Longrightarrow> sorter_before s b d \<Longrightarrow> sorter_before s a d"
  by (auto simp: sorter_before_def split: if_splits)

lemma before_tie:
  "sorter_before s a b \<Longrightarrow> sorters_before ss a b \<Longrightarrow> sorters_before (s # ss) a b"
  by (auto simp: sorter_before_def split: if_splits)

lemma not_before:
  "\<not> sorter_before s a b \<Longrightarrow> sorters_before (s # ss) b a"
  by (auto simp: sorter_before_def split: if_splits)

lemma sorted_insert_stable:
  "sorted_wrt (sorters_before (s # ss)) zs \<Longrightarrow> \<forall>z \<in> set zs. sorters_before ss x z \<Longrightarrow>
   sorted_wrt (sorters_before (s # ss)) (insert_stable s x zs)"
proof (induction zs)
  case Nil
  then show ?case by simp
next
  case (Cons z zs)
  show ?case
  proof (cases "sorter_before s x z")
    case True
    have "sorters_before (s # ss) x w" if "w \<in> set (z # zs)" for w
    proof -
      have "sorter_before s z w \<or> w = z"
        using that Cons.prems(1) by (auto simp del: sorters_before.simps dest: sorters_before_imp_before)
      then have "sorter_before s x w"
        using True before_trans by blast
      moreover have "sorters_before ss x w"
        using that Cons.prems(2) by blast
      ultimately show ?thesis by (rule before_tie)
    qed
    then show ?thesis
      using True Cons.prems(1) by (simp del: sorters_before.simps)
  next
    case False
    have rest: "sorted_wrt (sorters_before (s # ss)) (insert_stable s x zs)"
      using Cons by (simp del: sorters_before.simps)
    have "sorters_before (s # ss) z w" if "w \<in> set (insert_stable s x zs)" for w
    proof -
      have "w = x \<or> w \<in> set zs"
        using that mset_insert_stable [of s x zs] by (metis insert_iff set_mset_add_mset_insert set_mset_mset)
      then show ?thesis
        using not_before [OF False, of ss] Cons.prems(1) by (auto simp del: sorters_before.simps)
    qed
    then show ?thesis
      using False rest by (simp del: sorters_before.simps)
  qed
qed

lemma sorted_get_sorted:
  "sorted_wrt (sorters_before ss) ys \<Longrightarrow>
   sorted_wrt (sorters_before (s # ss)) (get_sorted_batch_definitions s ys)"
proof (induction ys)
  case Nil
  then show ?case by (simp add: get_sorted_Nil)
next
  case (Cons y ys)
  then show ?case
    by (simp add: get_sorted_Cons sorted_insert_stable set_get_sorted del: sorters_before.simps)
qed

lemma filter_insert_stable:
  assumes "\<And>a b. P a \<Longrightarrow> P b \<Longrightarrow> sorter_key s a = sorter_key s b"
  shows "filter P (insert_stable s x ys) = (if P x then x # filter P ys else filter P ys)"
proof (induction ys)
  case Nil
  then show ?case by simp
next
  case (Cons y ys)
  have "\<not> P y" if "\<not> sorter_before s x y" "P x"
    using that assms [of x y] by (auto simp: sorter_before_def split: if_splits)
  then show ?case using Cons by auto
qed

lemma filter_get_sorted:
  assumes "\<And>a b. P a \<Longrightarrow> P b \<Longrightarrow> sorter_key s a = sorter_key s b"
  shows "filter P (get_sorted_batch_definitions s xs) = filter P xs"
  by (induction xs) (simp_all add: get_sorted_Nil get_sorted_Cons filter_insert_stable [of P s, OF assms])

lemma sort_Cons:
  "sort_batch_definition_list (c\<lparr>sorters := (n, s) # rest\<rparr>) xs
     = get_sorted_batch_definitions s (sort_batch_definition_list (c\<lparr>sorters := rest\<rparr>) xs)"
  by (simp add: sort_batch_definition_list_def)

lemma tied_Cons: "tied (s # ss) x = (\<lambda>y. sorter_key s x = sorter_key s y \<and> tied ss x y)"
  by (rule ext) (simp add: tied_def)

lemma filter_tied_Cons:
  "filter (tied (s # ss) x) ys = filter (\<lambda>y. sorter_key s x = sorter_key s y) (filter (tied ss x) ys)"
  by (induction ys) (auto simp: tied_Cons)

lemma fold_sorted:
  "sorted_wrt (sorters_before ss) (fold get_sorted_batch_definitions (rev ss) xs)
   \<and> mset (fold get_sorted_batch_definitions (rev ss) xs) = mset xs
   \<and> filter (tied ss x) (fold get_sorted_batch_definitions (rev ss) xs) = filter (tied ss x) xs"
proof (induction ss arbitrary: x)
  case Nil
  then show ?case by (simp add: tied_def)
next
  case (Cons s ss)
  let ?ys = "fold get_sorted_batch_definitions (rev ss) xs"
  have 1: "sorted_wrt (sorters_before (s # ss)) (get_sorted_batch_definitions s ?ys)"
    using Cons.IH by (intro sorted_get_sorted) simp
  have 2: "mset (get_sorted_batch_definitions s ?ys) = mset xs"
    using Cons.IH by (simp add: mset_get_sorted)
  have "filter (tied (s # ss) x) (get_sorted_batch_definitions s ?ys) = filter (tied (s # ss) x) ?ys"
    by (rule filter_get_sorted) (simp add: tied_Cons)
  also have "\<dots> = filter (\<lambda>y. sorter_key s x = sorter_key s y) (filter (tied ss x) ?ys)"
    by (rule filter_tied_Cons)
  also have "\<dots> = filter (\<lambda>y. sorter_key s x = sorter_key s y) (filter (tied ss x) xs)"
    using Cons.IH by simp
  also have "\<dots> = filter (tied (s # ss) x) xs"
    by (rule filter_tied_Cons [symmetric])
  finally show ?case using 1 2 by (simp del: sorters_before.simps)
qed

text \<open>
  Claim C2 (multi-key sort composition). \<open>_sort_batch_definition_list\<close> applies the
  sorters in reverse declared order: the first declared sorter is the last pass over the
  list that the remaining sorters produced. Each pass is a stable sort on its sorter's
  key. The outcome is a rearrangement of the input that is ordered by the first declared
  sorter, within equal keys of it by the second, and so on; elements that agree on all
  keys keep the order they had in the input.
\<close>

theorem sort_first_declared_has_priority:
  "sort_batch_definition_list (c\<lparr>sorters := (n, s) # rest\<rparr>) xs
     = get_sorted_batch_definitions s (sort_batch_definition_list (c\<lparr>sorters := rest\<rparr>) xs)
   \<and> filter (\<lambda>y. sorter_key s y = k) (get_sorted_batch_definitions s xs)
     = filter (\<lambda>y. sorter_key s y = k) xs
   \<and> sorted_wrt (sorters_before (map snd (sorters c))) (sort_batch_definition_list c xs)
   \<and> mset (sort_batch_definition_list c xs) = mset xs
   \<and> filter (tied (map snd (sorters c)) x) (sort_batch_definition_list c xs)
     = filter (tied (map snd (sorters c)) x) xs"
proof -
  have pass: "filter (\<lambda>y. sorter_key s y = k) (get_sorted_batch_definitions s xs)
     = filter (\<lambda>y. sorter_key s y = k) xs"
    by (rule filter_get_sorted) simp
  show ?thesis
    using sort_Cons [where c = c and n = n and s = s and rest = rest and xs = xs] pass fold_sorted [of "map snd (sorters c)" xs x]
    unfolding sort_batch_definition_list_def [of c xs] by blast
qed

theorem sort_first_declared_has_priority_witness:
  "sort_batch_definition_list ex_connector
       [ex_record ''1'' ''2'', ex_record ''1'' ''1'', ex_record ''2'' ''5'']
     = [ex_record ''2'' ''5'', ex_record ''1'' ''1'', ex_record ''1'' ''2'']
   \<and> sorted_wrt (sorters_before (map snd (sorters ex_connector)))
       [ex_record ''2'' ''5'', ex_record ''1'' ''1'', ex_record ''1'' ''2'']
   \<and> mset [ex_record ''2'' ''5'', ex_record ''1'' ''1'', ex_record ''1'' ''2'']
     = mset [ex_record ''1'' ''2'', ex_record ''1'' ''1'', ex_record ''2'' ''5'']"
proof -
  have run: "sort_batch_definition_list ex_connector
       [ex_record ''1'' ''2'', ex_record ''1'' ''1'', ex_record ''2'' ''5'']
     = [ex_record ''2'' ''5'', ex_record ''1'' ''1'', ex_record ''1'' ''2'']"
    by (simp add: sort_batch_definition_list_def ex_connector_def ex_sorters_def ex_record_def
        get_sorted_batch_definitions_def sorter_before_def sorter_key_def)
  show ?thesis
    using sort_first_declared_has_priority
      [where c = ex_connector and n = "''A''" and s = "snd (hd ex_sorters)"
          and rest = "tl ex_sorters" and k = "''1''" and x = "ex_record ''1'' ''1''"
          and xs = "[ex_record ''1'' ''2'', ex_record ''1'' ''1'', ex_record ''2'' ''5'']"]
    unfolding run by blast
qed

section \<open>Validation of the sorters\<close>

lemma validate_group_names:
  "sorters c \<noteq> [] \<Longrightarrow>
   group_names (default_regex (snd (validate_sorters_configuration c req))) = effective_group_names c req"
  by (auto simp: validate_sorters_configuration_def effective_group_names_def override_the_defaults_def Let_def
      split: option.splits)

lemma validate_cache:
  "data_references_cache (snd (validate_sorters_configuration c req)) = data_references_cache c"
  by (auto simp: validate_sorters_configuration_def Let_def split: option.splits)

lemma validate_names:
  "get_available_data_asset_names (snd (validate_sorters_configuration c req))
     = get_available_data_asset_names c"
  by (auto simp: validate_sorters_configuration_def get_available_data_asset_names_def Let_def
      split: option.splits)

lemma validate_reference_list:
  "get_data_reference_list ext (snd (validate_sorters_configuration c req)) n
     = get_data_reference_list ext c n"
  by (auto simp: validate_sorters_configuration_def get_data_reference_list_def Let_def
      split: option.splits)

lemma validate_result:
  "sorters c \<noteq> [] \<Longrightarrow>
   fst (validate_sorters_configuration c req) =
     (if (\<exists>n \<in> set (map fst (sorters c)). n \<notin> set (effective_group_names c req))
          \<or> length (effective_group_names c req) < length (sorters c)
      then Inl DataConnectorError else Inr ())"
  by (auto simp: validate_sorters_configuration_def effective_group_names_def override_the_defaults_def Let_def
      list_ex_iff split: option.splits)

lemma get_list_validation_error:
  assumes "validate_batch_request ext c req" "fst (validate_sorters_configuration c req) = Inl e"
  shows "get_batch_definition_list_from_batch_request ext c req
          = (Inl e, snd (validate_sorters_configuration c req))"
  using assms
  by (cases "validate_sorters_configuration c req")
     (simp add: get_batch_definition_list_from_batch_request_def)

text \<open>
  One call, seen from the connector as the call finds it. Take a connector with sorters
  and a request that passes the inherited request validation. If some sorter's name is
  missing from the group names that the stored \<open>default_regex\<close> and the asset resolve
  to, or there are fewer of them than sorters, the call raises the \<open>DataConnectorError\<close>,
  leaves the cache as it was and gives the same outcome whatever the listing of the file
  system and the other collaborators are. Otherwise the validation returns without an
  error.
\<close>

lemma sorter_validation_fails_fast:
  assumes "sorters c \<noteq> []" and "validate_batch_request ext c req"
  shows "((\<exists>n \<in> set (map fst (sorters c)). n \<notin> set (effective_group_names c req))
            \<or> length (effective_group_names c req) < length (sorters c)
          \<longrightarrow> fst (get_batch_definition_list_from_batch_request ext c req) = Inl DataConnectorError
            \<and> data_references_cache (snd (get_batch_definition_list_from_batch_request ext c req))
                = data_references_cache c
            \<and> (\<forall>ext'. validate_batch_request ext' c req \<longrightarrow>
                  get_batch_definition_list_from_batch_request ext' c req
                    = get_batch_definition_list_from_batch_request ext c req))
       \<and> (\<not> ((\<exists>n \<in> set (map fst (sorters c)). n \<notin> set (effective_group_names c req))
               \<or> length (effective_group_names c req) < length (sorters c))
          \<longrightarrow> fst (validate_sorters_configuration c req) = Inr ())"
proof (intro conjI impI)
  assume bad: "(\<exists>n \<in> set (map fst (sorters c)). n \<notin> set (effective_group_names c req))
            \<or> length (effective_group_names c req) < length (sorters c)"
  then have e: "fst (validate_sorters_configuration c req) = Inl DataConnectorError"
    using validate_result [OF assms(1), of req] by simp
  have g: "get_batch_definition_list_from_batch_request x c req
          = (Inl DataConnectorError, snd (validate_sorters_configuration c req))"
    if "validate_batch_request x c req" for x :: "('a, 'b) collaborators"
    using get_list_validation_error [OF that e] .
  show "fst (get_batch_definition_list_from_batch_request ext c req) = Inl DataConnectorError"
    using g [OF assms(2)] by simp
  show "data_references_cache (snd (get_batch_definition_list_from_batch_request ext c req))
                = data_references_cache c"
    using g [OF assms(2)] by (simp add: validate_cache)
  show "\<forall>ext'. validate_batch_request ext' c req \<longrightarrow>
                  get_batch_definition_list_from_batch_request ext' c req
                    = get_batch_definition_list_from_batch_request ext c req"
    using g assms(2) by simp
next
  assume "\<not> ((\<exists>n \<in> set (map fst (sorters c)). n \<notin> set (effective_group_names c req))
               \<or> length (effective_group_names c req) < length (sorters c))"
  then show "fst (validate_sorters_configuration c req) = Inr ()"
    using validate_result [OF assms(1), of req] by simp
qed

text \<open>
  Claim C4 (sorter validation fails fast), evaluated on the example. The sorters are bound
  to \<open>A\<close> and \<open>B\<close>. Asset \<open>beta\<close> overrides nothing, so with the default group names
  \<open>A, B\<close> its effective group names hold every sorter name and a request for it is
  served. A request for asset \<open>gamma\<close>, whose group names are \<open>year\<close>, is rejected; the
  next request for \<open>beta\<close> is then rejected too. In the configuration with the default
  group names \<open>X, Y\<close> a request for \<open>beta\<close> is rejected, as it should be; after a request
  for asset \<open>alpha\<close>, whose group names are \<open>B, A\<close>, the validation of a request for
  \<open>beta\<close> passes and the request is served.
\<close>

theorem sorter_validation_depends_on_earlier_requests:
  "map fst (sorters ex_connector_assets) = [''A'', ''B'']
   \<and> effective_group_names ex_connector_assets (ex_request ''beta'') = [''A'', ''B'']
   \<and> fst (validate_sorters_configuration ex_connector_assets (ex_request ''beta'')) = Inr ()
   \<and> fst (get_batch_definition_list_from_batch_request ex_collaborators ex_connector_assets
         (ex_request ''gamma'')) = Inl DataConnectorError
   \<and> fst (get_batch_definition_list_from_batch_request ex_collaborators
         (snd (get_batch_definition_list_from_batch_request ex_collaborators ex_connector_assets
            (ex_request ''gamma'')))
         (ex_request ''beta'')) = Inl DataConnectorError
   \<and> map fst (sorters ex_connector_xy) = [''A'', ''B'']
   \<and> effective_group_names ex_connector_xy (ex_request ''beta'') = [''X'', ''Y'']
   \<and> fst (get_batch_definition_list_from_batch_request ex_collaborators ex_connector_xy
         (ex_request ''beta'')) = Inl DataConnectorError
   \<and> fst (validate_sorters_configuration
         (snd (get_batch_definition_list_from_batch_request ex_collaborators ex_connector_xy
            (ex_request ''alpha'')))
         (ex_request ''beta'')) = Inr ()
   \<and> fst (get_batch_definition_list_from_batch_request ex_collaborators
         (snd (get_batch_definition_list_from_batch_request ex_collaborators ex_connector_xy
            (ex_request ''alpha'')))
         (ex_request ''beta'')) \<noteq> Inl DataConnectorError"
  by code_simp

section \<open>Counting and diagnosing the references\<close>

lemma fold_count:
  "fold (\<lambda>(a, sub) t. t + length sub) ch n = n + sum_list (map (\<lambda>p. length (snd p)) ch)"
  by (induction ch arbitrary: n) (auto simp: case_prod_unfold)

lemma fold_unmatched:
  "fold (\<lambda>(a, sub) u. u @ g sub) ch u0 = u0 @ concat (map (\<lambda>p. g (snd p)) ch)"
  by (induction ch arbitrary: u0) (auto simp: case_prod_unfold)

lemma count_cached:
  "data_references_cache c = Some ch \<Longrightarrow>
   get_data_reference_list_count c = Inr (sum_list (map (\<lambda>p. length (snd p)) ch))"
  by (simp add: get_data_reference_list_count_def fold_count)

lemma unmatched_cached:
  "data_references_cache c = Some ch \<Longrightarrow>
   get_unmatched_data_references c
     = Inr (concat (map (\<lambda>p. map fst (filter (\<lambda>(k, v). v = None) (snd p))) ch))"
  by (simp add: get_unmatched_data_references_def fold_unmatched)

lemma refresh_cache_Some:
  "\<exists>ch. data_references_cache (refresh_data_references_cache ext c) = Some ch"
  by (simp add: refresh_data_references_cache_def)

lemma sum_list_entries:
  assumes "distinct (map fst ch)" and "set ch = (\<lambda>a. (a, f a)) ` A"
  shows "sum_list (map (\<lambda>p. g (snd p)) ch) = (\<Sum>a\<in>A. (g (f a) :: nat))"
proof -
  have d: "distinct ch" using assms(1) by (rule distinct_map [THEN iffD1, THEN conjunct1])
  have "sum_list (map (\<lambda>p. g (snd p)) ch) = (\<Sum>p\<in>set ch. g (snd p))"
    using d by (rule sum_list_distinct_conv_sum_set)
  also have "\<dots> = (\<Sum>p\<in>(\<lambda>a. (a, f a)) ` A. g (snd p))"
    by (simp add: assms(2))
  also have "\<dots> = (\<Sum>a\<in>A. g (f a))"
    by (subst sum.reindex) (auto simp: inj_on_def)
  finally show ?thesis .
qed

lemma count_refreshed:
  "get_data_reference_list_count (refresh_data_references_cache ext c)
     = Inr (\<Sum>a\<in>set (get_available_data_asset_names c).
             card (set (get_data_reference_list ext c (Some a))))"
proof -
  obtain ch where ch: "data_references_cache (refresh_data_references_cache ext c) = Some ch"
    using refresh_cache_Some by blast
  have "sum_list (map (\<lambda>p. length (snd p)) ch)
        = (\<Sum>a\<in>set (get_available_data_asset_names c). length (asset_sub_cache ext c a))"
    using refresh_cache_distinct [OF ch] refresh_cache_set [OF ch]
    by (rule sum_list_entries)
  then show ?thesis
    using count_cached [OF ch] by (simp add: sub_cache_length)
qed

lemma length_split: "length xs = length (filter P xs) + length (filter (\<lambda>x. \<not> P x) xs)"
  by (induction xs) auto

lemma count_matched_unmatched:
  assumes "data_references_cache c = Some ch"
  shows "\<exists>n u. get_data_reference_list_count c = Inr n \<and> get_unmatched_data_references c = Inr u
           \<and> n = length u + length (filter (\<lambda>v. v \<noteq> None) (cache_values ch))"
proof -
  have "sum_list (map (\<lambda>p. length (snd p)) ch)
        = length (concat (map (\<lambda>p. map fst (filter (\<lambda>(k, v). v = None) (snd p))) ch))
          + length (filter (\<lambda>v. v \<noteq> None) (cache_values ch))"
  proof (induction ch)
    case Nil
    then show ?case by (simp add: cache_values_def)
  next
    case (Cons p ch)
    have "length (snd p) = length (filter (\<lambda>(k, v). v = None) (snd p))
            + length (filter (\<lambda>v. v \<noteq> None) (map snd (snd p)))"
      using length_split [of "snd p" "\<lambda>(k, v). v = None"]
      by (simp add: filter_map comp_def case_prod_unfold)
    then show ?case using Cons
      by (simp add: cache_values_def case_prod_unfold)
  qed
  then show ?thesis
    using count_cached [OF assms] unmatched_cached [OF assms] by simp
qed

text \<open>
  Claim C8 (not initialised versus empty). \<open>get_data_reference_list_count\<close> raises
  exactly when the cache is still \<open>None\<close>, that is before any refresh, and then it is the
  not-initialised error. After a refresh it returns the number of references found,
  summed over the assets; that number is the number of unmatched references plus the
  number of matched ones. When the store lists nothing for every asset the count is \<open>0\<close>,
  not an error.
\<close>

theorem count_needs_refresh:
  "((\<exists>e. get_data_reference_list_count c = Inl e) \<longleftrightarrow> data_references_cache c = None)
   \<and> (data_references_cache c = None \<longrightarrow> get_data_reference_list_count c = Inl NotInitialized)
   \<and> get_data_reference_list_count (refresh_data_references_cache ext c)
       = Inr (\<Sum>a\<in>set (get_available_data_asset_names c).
               card (set (get_data_reference_list ext c (Some a))))
   \<and> (\<exists>n u ch. data_references_cache (refresh_data_references_cache ext c) = Some ch
         \<and> get_data_reference_list_count (refresh_data_references_cache ext c) = Inr n
         \<and> get_unmatched_data_references (refresh_data_references_cache ext c) = Inr u
         \<and> n = length u + length (filter (\<lambda>v. v \<noteq> None) (cache_values ch)))
   \<and> ((\<forall>a\<in>set (get_available_data_asset_names c). get_data_reference_list ext c (Some a) = [])
        \<longrightarrow> get_data_reference_list_count (refresh_data_references_cache ext c) = Inr 0)"
proof -
  have 1: "(\<exists>e. get_data_reference_list_count c = Inl e) \<longleftrightarrow> data_references_cache c = None"
    by (auto simp: get_data_reference_list_count_def split: option.splits)
  have 2: "data_references_cache c = None \<longrightarrow> get_data_reference_list_count c = Inl NotInitialized"
    by (simp add: get_data_reference_list_count_def)
  obtain ch where ch: "data_references_cache (refresh_data_references_cache ext c) = Some ch"
    using refresh_cache_Some by blast
  have 4: "\<exists>n u ch. data_references_cache (refresh_data_references_cache ext c) = Some ch
         \<and> get_data_reference_list_count (refresh_data_references_cache ext c) = Inr n
         \<and> get_unmatched_data_references (refresh_data_references_cache ext c) = Inr u
         \<and> n = length u + length (filter (\<lambda>v. v \<noteq> None) (cache_values ch))"
    using count_matched_unmatched [OF ch] ch by blast
  have 5: "(\<forall>a\<in>set (get_available_data_asset_names c). get_data_reference_list ext c (Some a) = [])
        \<longrightarrow> get_data_reference_list_count (refresh_data_references_cache ext c) = Inr 0"
    by (simp add: count_refreshed)
  show ?thesis
    using 1 2 count_refreshed [of ext c] 4 5 by blast
qed

theorem count_needs_refresh_witness:
  "data_references_cache ex_connector_assets = None
   \<and> get_data_reference_list_count ex_connector_assets = Inl NotInitialized
   \<and> get_available_data_asset_names ex_connector_assets = [''alpha'', ''beta'', ''gamma'']
   \<and> get_data_reference_list ex_empty_store ex_connector_assets (Some ''alpha'') = []
   \<and> get_data_reference_list ex_empty_store ex_connector_assets (Some ''beta'') = []
   \<and> get_data_reference_list ex_empty_store ex_connector_assets (Some ''gamma'') = []
   \<and> get_data_reference_list_count
        (refresh_data_references_cache ex_empty_store ex_connector_assets) = Inr 0
   \<and> get_data_reference_list_count
        (refresh_data_references_cache ex_collaborators ex_connector_assets) = Inr 5"
proof -
  have n: "data_references_cache ex_connector_assets = None" by code_simp
  have names: "get_available_data_asset_names ex_connector_assets = [''alpha'', ''beta'', ''gamma'']"
    by code_simp
  have each: "get_data_reference_list ex_empty_store ex_connector_assets (Some a) = []" for a
    by (simp add: get_data_reference_list_def ex_empty_store_def)
  have s: "(\<Sum>a\<in>set (get_available_data_asset_names ex_connector_assets).
             card (set (get_data_reference_list ex_collaborators ex_connector_assets (Some a))))
           = 5"
    by code_simp
  show ?thesis
    using count_needs_refresh [of ex_connector_assets ex_empty_store]
      count_needs_refresh [of ex_connector_assets ex_collaborators] n names each
    unfolding s by blast
qed

lemma first_batch_definitions_sound:
  "first_batch_definitions vs = Inr cands \<Longrightarrow> bd \<in> set cands \<Longrightarrow> \<exists>bds. Some (bd # bds) \<in> set vs"
proof (induction vs arbitrary: cands rule: first_batch_definitions.induct)
  case 1
  then show ?case by simp
next
  case (2 vs)
  then show ?case by auto
next
  case (3 vs)
  then show ?case by simp
next
  case (4 b bs vs)
  then show ?case by (fastforce split: sum.splits)
qed

lemma cache_values_set:
  "set (cache_values ch) = (\<Union>p \<in> set ch. snd ` set (snd p))"
  by (auto simp: cache_values_def case_prod_unfold)

lemma set_sort_batch_definition_list: "set (sort_batch_definition_list c xs) = set xs"
proof -
  have "mset (sort_batch_definition_list c xs) = mset xs"
    using fold_sorted [of "map snd (sorters c)" xs] by (simp add: sort_batch_definition_list_def)
  then show ?thesis by (metis set_mset_mset)
qed

lemma get_list_from_cache:
  assumes sel: "\<And>q xs. set (select_from_partition_request ext q xs) \<subseteq> set xs"
    and ch: "data_references_cache c = Some ch"
    and res: "fst (get_batch_definition_list_from_batch_request ext c req) = Inr res"
    and bd: "bd \<in> set res"
  shows "\<exists>bds. Some (bd # bds) \<in> set (cache_values ch)"
proof -
  obtain r c1 where v: "validate_sorters_configuration c req = (r, c1)"
    by (cases "validate_sorters_configuration c req")
  have c1: "data_references_cache c1 = Some ch"
    using validate_cache [of c req] v ch by simp
  from res v c1 obtain cands where
    cands: "first_batch_definitions (cache_values ch) = Inr cands"
    by (auto simp: get_batch_definition_list_from_batch_request_def Let_def
        split: if_splits sum.splits)
  let ?l1 = "filter (\<lambda>bd. batch_definition_matches_batch_request ext bd req) cands"
  let ?l2 = "case partition_request req of None \<Rightarrow> ?l1
             | Some q \<Rightarrow> select_from_partition_request ext q ?l1"
  have l2: "set ?l2 \<subseteq> set cands"
  proof (cases "partition_request req")
    case None
    then show ?thesis by auto
  next
    case (Some q)
    then show ?thesis using sel [of q ?l1] by auto
  qed
  have "res = sort_batch_definition_list c1 ?l2 \<or> res = ?l2"
    using res v c1 cands
    by (auto simp: get_batch_definition_list_from_batch_request_def Let_def
        split: if_splits sum.splits)
  then have "set res \<subseteq> set cands"
    using l2 by (auto simp: set_sort_batch_definition_list)
  then show ?thesis
    using first_batch_definitions_sound [OF cands] bd by blast
qed

lemma cache_entry:
  assumes "data_references_cache (refresh_data_references_cache ext c) = Some ch"
  shows "v \<in> set (cache_values ch) \<longleftrightarrow>
    (\<exists>a \<in> set (get_available_data_asset_names c). \<exists>r \<in> set (get_data_reference_list ext c (Some a)).
        v = map_data_reference_to_batch_definition_list ext c r (Some a))"
  unfolding cache_values_set refresh_cache_set [OF assms]
  by (force simp: sub_cache_set)

lemma unmatched_entry:
  assumes "data_references_cache (refresh_data_references_cache ext c) = Some ch"
  shows "get_unmatched_data_references (refresh_data_references_cache ext c) = Inr u \<Longrightarrow>
    (r \<in> set u \<longleftrightarrow>
    (\<exists>a \<in> set (get_available_data_asset_names c). r \<in> set (get_data_reference_list ext c (Some a))
        \<and> map_data_reference_to_batch_definition_list ext c r (Some a) = None))"
  unfolding unmatched_cached [OF assms]
  by (force simp: refresh_cache_set [OF assms] sub_cache_set)

lemma get_list_lazy_refresh:
  assumes sel: "\<And>q xs. set (select_from_partition_request ext q xs) \<subseteq> set xs"
    and none: "data_references_cache c = None"
    and ch: "data_references_cache
               (refresh_data_references_cache ext (snd (validate_sorters_configuration c req)))
             = Some ch"
    and res: "fst (get_batch_definition_list_from_batch_request ext c req) = Inr res"
    and bd: "bd \<in> set res"
  shows "\<exists>bds. Some (bd # bds) \<in> set (cache_values ch)"
proof -
  obtain r c1 where v: "validate_sorters_configuration c req = (r, c1)"
    by (cases "validate_sorters_configuration c req")
  have c1: "data_references_cache c1 = None"
    using validate_cache [of c req] v none by simp
  have ch': "data_references_cache (refresh_data_references_cache ext c1) = Some ch"
    using ch v by simp
  from res v c1 ch' obtain cands where
    cands: "first_batch_definitions (cache_values ch) = Inr cands"
    by (auto simp: get_batch_definition_list_from_batch_request_def Let_def
        split: if_splits sum.splits)
  let ?l1 = "filter (\<lambda>bd. batch_definition_matches_batch_request ext bd req) cands"
  let ?l2 = "case partition_request req of None \<Rightarrow> ?l1
             | Some q \<Rightarrow> select_from_partition_request ext q ?l1"
  have l2: "set ?l2 \<subseteq> set cands"
  proof (cases "partition_request req")
    case None
    then show ?thesis by auto
  next
    case (Some q)
    then show ?thesis using sel [of q ?l1] by auto
  qed
  have "res = sort_batch_definition_list (refresh_data_references_cache ext c1) ?l2 \<or> res = ?l2"
    using res v c1 ch' cands
    by (auto simp: get_batch_definition_list_from_batch_request_def Let_def
        split: if_splits sum.splits)
  then have "set res \<subseteq> set cands"
    using l2 by (auto simp: set_sort_batch_definition_list)
  then show ?thesis
    using first_batch_definitions_sound [OF cands] bd by blast
qed

text \<open>
  Claim C6 (unmatched references), as stated, fails when two assets list the same
  directory. The file \<open>1-2.csv\<close> matches the pattern of asset \<open>dash\<close> and fails the
  pattern of asset \<open>underscore\<close>: it is a reference that matched and yet is among the
  unmatched references, and it is a reference whose mapping failed and yet a batch
  definition for it is returned to a request.
\<close>

theorem unmatched_references_shared_directory_counterexample:
  "''1-2.csv'' \<in> set (get_data_reference_list ex_shared_collaborators ex_shared_connector
         (Some ''dash''))
   \<and> map_data_reference_to_batch_definition_list ex_shared_collaborators ex_shared_connector
         ''1-2.csv'' (Some ''dash'') = Some [ex_dash_definition]
   \<and> ''1-2.csv'' \<in> set (get_data_reference_list ex_shared_collaborators ex_shared_connector
         (Some ''underscore''))
   \<and> map_data_reference_to_batch_definition_list ex_shared_collaborators ex_shared_connector
         ''1-2.csv'' (Some ''underscore'') = None
   \<and> get_unmatched_data_references
         (refresh_data_references_cache ex_shared_collaborators ex_shared_connector)
       = Inr [''3_4.csv'', ''1-2.csv'']
   \<and> fst (get_batch_definition_list_from_batch_request ex_shared_collaborators
         (refresh_data_references_cache ex_shared_collaborators ex_shared_connector)
         (ex_request ''dash'')) = Inr [ex_dash_definition]"
  by code_simp

text \<open>
  Claim C6 (unmatched references), amended: matching is per asset. After a refresh,
  \<open>get_unmatched_data_references\<close> returns exactly the references whose mapping is \<open>None\<close>
  under at least one asset that lists them; so a reference found for an asset under
  which its mapping is \<open>None\<close> is returned, and a reference whose mapping is a list
  under every asset that lists it is not. Every batch definition that
  \<open>get_batch_definition_list_from_batch_request\<close> returns is the first batch definition
  of a reference under an asset where its mapping is a list, both when the call finds
  the refreshed cache and when it finds no cache and refreshes it itself; in the second
  case the mapping is the one of the connector as the sorter validation of that call
  leaves it. The partition query, a collaborator, is assumed to select among the batch
  definitions it is given.
\<close>

theorem unmatched_references_diagnosed:
  assumes "\<forall>q xs. set (select_from_partition_request ext q xs) \<subseteq> set xs"
  shows "(\<exists>u. get_unmatched_data_references (refresh_data_references_cache ext c) = Inr u
           \<and> (\<forall>r. r \<in> set u \<longleftrightarrow>
                 (\<exists>a \<in> set (get_available_data_asset_names c).
                    r \<in> set (get_data_reference_list ext c (Some a))
                    \<and> map_data_reference_to_batch_definition_list ext c r (Some a) = None))
           \<and> (\<forall>r. (\<forall>a \<in> set (get_available_data_asset_names c).
                       r \<in> set (get_data_reference_list ext c (Some a))
                       \<longrightarrow> map_data_reference_to_batch_definition_list ext c r (Some a) \<noteq> None)
                 \<longrightarrow> r \<notin> set u))
    \<and> (\<forall>c' req res.
           data_references_cache c' = data_references_cache (refresh_data_references_cache ext c)
           \<and> fst (get_batch_definition_list_from_batch_request ext c' req) = Inr res
           \<longrightarrow> (\<forall>bd \<in> set res.
                 \<exists>a \<in> set (get_available_data_asset_names c).
                 \<exists>r \<in> set (get_data_reference_list ext c (Some a)).
                 \<exists>bds. map_data_reference_to_batch_definition_list ext c r (Some a)
                          = Some (bd # bds)))
    \<and> (\<forall>req res.
           data_references_cache c = None
           \<and> fst (get_batch_definition_list_from_batch_request ext c req) = Inr res
           \<longrightarrow> (\<forall>bd \<in> set res.
                 \<exists>a \<in> set (get_available_data_asset_names c).
                 \<exists>r \<in> set (get_data_reference_list ext c (Some a)).
                 \<exists>bds. map_data_reference_to_batch_definition_list ext
                          (snd (validate_sorters_configuration c req)) r (Some a)
                          = Some (bd # bds)))"
proof -
  obtain ch where ch: "data_references_cache (refresh_data_references_cache ext c) = Some ch"
    using refresh_cache_Some by blast
  obtain u where u: "get_unmatched_data_references (refresh_data_references_cache ext c) = Inr u"
    using unmatched_cached [OF ch] by blast
  have iff: "r \<in> set u \<longleftrightarrow>
                 (\<exists>a \<in> set (get_available_data_asset_names c).
                    r \<in> set (get_data_reference_list ext c (Some a))
                    \<and> map_data_reference_to_batch_definition_list ext c r (Some a) = None)" for r
    using unmatched_entry [OF ch u] .
  have 1: "\<exists>u. get_unmatched_data_references (refresh_data_references_cache ext c) = Inr u
           \<and> (\<forall>r. r \<in> set u \<longleftrightarrow>
                 (\<exists>a \<in> set (get_available_data_asset_names c).
                    r \<in> set (get_data_reference_list ext c (Some a))
                    \<and> map_data_reference_to_batch_definition_list ext c r (Some a) = None))
           \<and> (\<forall>r. (\<forall>a \<in> set (get_available_data_asset_names c).
                       r \<in> set (get_data_reference_list ext c (Some a))
                       \<longrightarrow> map_data_reference_to_batch_definition_list ext c r (Some a) \<noteq> None)
                 \<longrightarrow> r \<notin> set u)"
    using u iff by blast
  have 3: "\<exists>a \<in> set (get_available_data_asset_names c).
           \<exists>r \<in> set (get_data_reference_list ext c (Some a)).
           \<exists>bds. map_data_reference_to_batch_definition_list ext c r (Some a) = Some (bd # bds)"
    if c': "data_references_cache c' = data_references_cache (refresh_data_references_cache ext c)"
      and res: "fst (get_batch_definition_list_from_batch_request ext c' req) = Inr res"
      and bd: "bd \<in> set res"
    for c' req res bd
  proof -
    have "\<exists>bds. Some (bd # bds) \<in> set (cache_values ch)"
      using assms c' ch res bd by (intro get_list_from_cache [of ext c' ch req res bd]) auto
    then obtain bds where "Some (bd # bds) \<in> set (cache_values ch)" by blast
    then show ?thesis
      unfolding cache_entry [OF ch] by metis
  qed
  have 4: "\<exists>a \<in> set (get_available_data_asset_names c).
           \<exists>r \<in> set (get_data_reference_list ext c (Some a)).
           \<exists>bds. map_data_reference_to_batch_definition_list ext
                    (snd (validate_sorters_configuration c req)) r (Some a) = Some (bd # bds)"
    if none: "data_references_cache c = None"
      and res: "fst (get_batch_definition_list_from_batch_request ext c req) = Inr res"
      and bd: "bd \<in> set res"
    for req res bd
  proof -
    let ?c1 = "snd (validate_sorters_configuration c req)"
    obtain ch1 where ch1: "data_references_cache (refresh_data_references_cache ext ?c1) = Some ch1"
      using refresh_cache_Some by blast
    have "\<exists>bds. Some (bd # bds) \<in> set (cache_values ch1)"
      using assms none ch1 res bd
      by (intro get_list_lazy_refresh [of ext c req ch1 res bd]) auto
    then obtain bds where "Some (bd # bds) \<in> set (cache_values ch1)" by blast
    then obtain a r where a: "a \<in> set (get_available_data_asset_names ?c1)"
      and r: "r \<in> set (get_data_reference_list ext ?c1 (Some a))"
      and m: "map_data_reference_to_batch_definition_list ext ?c1 r (Some a) = Some (bd # bds)"
      unfolding cache_entry [OF ch1] by metis
    have "get_available_data_asset_names ?c1 = get_available_data_asset_names c"
      by (rule validate_names)
    moreover have "get_data_reference_list ext ?c1 (Some a) = get_data_reference_list ext c (Some a)"
      by (rule validate_reference_list)
    ultimately show ?thesis using a r m by auto
  qed
  show ?thesis
    using 1 3 4 by blast
qed

theorem unmatched_references_diagnosed_witness:
  "get_unmatched_data_references
        (refresh_data_references_cache ex_collaborators ex_connector_assets) = Inr [''readme'']
   \<and> ''readme'' \<in> set (get_data_reference_list ex_collaborators ex_connector_assets
        (Some ''alpha''))
   \<and> map_data_reference_to_batch_definition_list ex_collaborators ex_connector_assets
        ''readme'' (Some ''alpha'') = None
   \<and> (\<exists>u. get_unmatched_data_references
              (refresh_data_references_cache ex_collaborators ex_connector_assets) = Inr u
          \<and> ''readme'' \<in> set u \<and> ''1-2.csv'' \<notin> set u)"
proof -
  have sel: "\<forall>q xs. set (select_from_partition_request ex_collaborators q xs) \<subseteq> set xs"
    by (simp add: ex_collaborators_def)
  have run: "get_unmatched_data_references
        (refresh_data_references_cache ex_collaborators ex_connector_assets) = Inr [''readme'']"
    by code_simp
  have listed: "''readme'' \<in> set (get_data_reference_list ex_collaborators ex_connector_assets
        (Some ''alpha''))"
    by code_simp
  have failed: "map_data_reference_to_batch_definition_list ex_collaborators ex_connector_assets
        ''readme'' (Some ''alpha'') = None"
    by code_simp
  have names: "''alpha'' \<in> set (get_available_data_asset_names ex_connector_assets)"
    by code_simp
  from unmatched_references_diagnosed [OF sel, of ex_connector_assets]
  obtain u where u: "get_unmatched_data_references
              (refresh_data_references_cache ex_collaborators ex_connector_assets) = Inr u"
    and iff: "\<And>r. r \<in> set u \<longleftrightarrow>
                 (\<exists>a \<in> set (get_available_data_asset_names ex_connector_assets).
                    r \<in> set (get_data_reference_list ex_collaborators ex_connector_assets (Some a))
                    \<and> map_data_reference_to_batch_definition_list ex_collaborators
                          ex_connector_assets r (Some a) = None)"
    by blast
  have in_u: "''readme'' \<in> set u"
    unfolding iff using names listed failed by blast
  have "u = [''readme'']" using u run by simp
  then have "''1-2.csv'' \<notin> set u" by simp
  then show ?thesis
    using run listed failed u in_u by blast
qed

section \<open>Building the batch spec\<close>

text \<open>
  Claim C3 (the path of the batch spec), evaluated on the example. Asset \<open>alpha\<close> has the
  base directory \<open>sub\<close>: its references are listed in \<open>/data/sub\<close>, where \<open>1-2.csv\<close> is
  found and mapped to a batch definition, and that batch definition maps back to
  \<open>1-2.csv\<close>. \<open>build_batch_spec\<close> joins the reference onto the connector's directory
  \<open>/data\<close> and returns \<open>/data/1-2.csv\<close>; joined onto the asset's directory the path would
  be \<open>/data/sub/1-2.csv\<close>.
\<close>

theorem build_batch_spec_ignores_asset_directory:
  "get_data_reference_list ex_collaborators ex_connector_assets (Some ''alpha'')
     = get_filesystem_one_level_directory_glob_path_list ex_collaborators ''/data/sub'' ''*''
   \<and> ''1-2.csv'' \<in> set (get_filesystem_one_level_directory_glob_path_list ex_collaborators ''/data/sub'' ''*'')
   \<and> map_data_reference_to_batch_definition_list ex_collaborators ex_connector_assets
         ''1-2.csv'' (Some ''alpha'') = Some [ex_alpha_definition]
   \<and> map_batch_definition_to_data_reference ex_collaborators ex_connector_assets
         ex_alpha_definition = Some ''1-2.csv''
   \<and> generate_batch_spec_parameters_from_batch_definition ex_collaborators
         ex_connector_assets ex_alpha_definition = Inr ''/data/1-2.csv''
   \<and> build_batch_spec ex_collaborators ex_connector_assets ex_alpha_definition
         = Inr ''/data/1-2.csv''
   \<and> joinpath ''/data/sub'' ''1-2.csv'' = ''/data/sub/1-2.csv''"
  by code_simp

section \<open>The stored defaults\<close>

text \<open>
  Claim C5 (the stored defaults stay unchanged), evaluated on the example. The connector
  is configured with the default group names \<open>A, B\<close>. Serving a request for asset
  \<open>alpha\<close>, which overrides the group names with \<open>B, A\<close>, passes the sorter validation
  and leaves \<open>B, A\<close> in the connector's \<open>default_regex\<close>; asset \<open>beta\<close>, which overrides
  nothing, resolved to \<open>A, B\<close> before that request and resolves to \<open>B, A\<close> after it.
\<close>

theorem validation_overwrites_default_group_names:
  "group_names (default_regex ex_connector_assets) = [''A'', ''B'']
   \<and> fst (get_batch_definition_list_from_batch_request ex_collaborators ex_connector_assets
            (ex_request ''alpha'')) \<noteq> Inl DataConnectorError
   \<and> group_names (default_regex (snd (get_batch_definition_list_from_batch_request
        ex_collaborators ex_connector_assets (ex_request ''alpha'')))) = [''B'', ''A'']
   \<and> group_names (override_the_defaults ex_connector_assets (Some ''beta'')) = [''A'', ''B'']
   \<and> group_names (override_the_defaults (snd (get_batch_definition_list_from_batch_request
        ex_collaborators ex_connector_assets (ex_request ''alpha''))) (Some ''beta''))
       = [''B'', ''A'']"
  by code_simp

section \<open>The validation of \<open>expect_column_values_to_be_decreasing\<close>\<close>

text \<open>
  Claim C9 (the key of the index list). Whenever the two counts are numbers and the
  non-null count is not zero, \<open>_validates\<close> returns the formatted keyword arguments in
  which \<open>unexpected_index_list\<close> is the entry of the metric values under
  \<open>column_values.increasing.unexpected_index_list\<close>, \<open>unexpected_list\<close> the entry under
  \<open>column_values.decreasing.unexpected_values\<close>, and \<open>success\<close> and \<open>unexpected_count\<close>
  are computed from the entries under \<open>column_values.decreasing.count\<close> and
  \<open>column_values.nonnull.count\<close>; every result it returns has this form. The entry under
  \<open>column_values.decreasing.unexpected_index_list\<close> is never read: changing it changes
  nothing.
\<close>

theorem validates_index_list_from_increasing_key:
  "(metric_vals ''column_values.decreasing.count'' = Some (Count d)
      \<and> metric_vals ''column_values.nonnull.count'' = Some (Count n) \<and> n \<noteq> 0
    \<longrightarrow> validates ratio_at_least format_output mostly default_result_format
          runtime_configuration metric_vals
        = Inr (format_output (result_format_of runtime_configuration default_result_format)
            \<lparr>success = ratio_at_least d n mostly,
             element_count = metric_vals ''column_values.count'',
             nonnull_count = n,
             unexpected_count = n - d,
             unexpected_list = metric_vals ''column_values.decreasing.unexpected_values'',
             unexpected_index_list =
               metric_vals ''column_values.increasing.unexpected_index_list''\<rparr>))
   \<and> (validates ratio_at_least format_output mostly default_result_format runtime_configuration
         metric_vals = Inr r
      \<longrightarrow> (\<exists>args. r = format_output (result_format_of runtime_configuration default_result_format) args
            \<and> unexpected_index_list args
                = metric_vals ''column_values.increasing.unexpected_index_list''
            \<and> unexpected_list args = metric_vals ''column_values.decreasing.unexpected_values''
            \<and> metric_vals ''column_values.nonnull.count'' = Some (Count (nonnull_count args))
            \<and> metric_vals ''column_values.decreasing.count''
                = Some (Count (nonnull_count args - unexpected_count args))
            \<and> success args = ratio_at_least (nonnull_count args - unexpected_count args)
                                (nonnull_count args) mostly))
   \<and> validates ratio_at_least format_output mostly default_result_format runtime_configuration
        (metric_vals(''column_values.decreasing.unexpected_index_list'' := x))
      = validates ratio_at_least format_output mostly default_result_format runtime_configuration
          metric_vals"
proof (intro conjI impI)
  assume "metric_vals ''column_values.decreasing.count'' = Some (Count d)
      \<and> metric_vals ''column_values.nonnull.count'' = Some (Count n) \<and> n \<noteq> 0"
  then show "validates ratio_at_least format_output mostly default_result_format
          runtime_configuration metric_vals
        = Inr (format_output (result_format_of runtime_configuration default_result_format)
            \<lparr>success = ratio_at_least d n mostly,
             element_count = metric_vals ''column_values.count'',
             nonnull_count = n,
             unexpected_count = n - d,
             unexpected_list = metric_vals ''column_values.decreasing.unexpected_values'',
             unexpected_index_list =
               metric_vals ''column_values.increasing.unexpected_index_list''\<rparr>)"
    by (simp add: validates_def)
next
  assume "validates ratio_at_least format_output mostly default_result_format runtime_configuration
         metric_vals = Inr r"
  then show "\<exists>args. r = format_output (result_format_of runtime_configuration default_result_format) args
            \<and> unexpected_index_list args
                = metric_vals ''column_values.increasing.unexpected_index_list''
            \<and> unexpected_list args = metric_vals ''column_values.decreasing.unexpected_values''
            \<and> metric_vals ''column_values.nonnull.count'' = Some (Count (nonnull_count args))
            \<and> metric_vals ''column_values.decreasing.count''
                = Some (Count (nonnull_count args - unexpected_count args))
            \<and> success args = ratio_at_least (nonnull_count args - unexpected_count args)
                                (nonnull_count args) mostly"
    by (auto simp: validates_def Let_def split: option.splits metric_value.splits if_splits
        intro!: exI)
next
  show "validates ratio_at_least format_output mostly default_result_format runtime_configuration
        (metric_vals(''column_values.decreasing.unexpected_index_list'' := x))
      = validates ratio_at_least format_output mostly default_result_format runtime_configuration
          metric_vals"
    by (simp add: validates_def split: option.splits metric_value.splits)
qed

theorem validates_index_list_from_increasing_key_witness:
  "ex_metric_vals ''column_values.decreasing.count'' = Some (Count 3)
   \<and> ex_metric_vals ''column_values.nonnull.count'' = Some (Count 4) \<and> (4::int) \<noteq> 0
   \<and> validates (\<lambda>d n m. m * n \<le> d) (\<lambda>f args. args) (1::int) ''BASIC'' None ex_metric_vals
       = Inr \<lparr>success = False, element_count = Some (Count 5), nonnull_count = 4,
              unexpected_count = 1, unexpected_list = Some (Listed [9]),
              unexpected_index_list = Some (Listed [7])\<rparr>"
proof -
  have d: "ex_metric_vals ''column_values.decreasing.count'' = Some (Count 3)" by code_simp
  have n: "ex_metric_vals ''column_values.nonnull.count'' = Some (Count 4)" by code_simp
  have e: "ex_metric_vals ''column_values.count'' = Some (Count 5)" by code_simp
  have u: "ex_metric_vals ''column_values.decreasing.unexpected_values'' = Some (Listed [9])"
    by code_simp
  have i: "ex_metric_vals ''column_values.increasing.unexpected_index_list'' = Some (Listed [7])"
    by code_simp
  have "validates (\<lambda>d n m. m * n \<le> d) (\<lambda>f args. args) (1::int) ''BASIC'' None ex_metric_vals
       = Inr \<lparr>success = (1::int) * 4 \<le> 3,
              element_count = ex_metric_vals ''column_values.count'', nonnull_count = 4,
              unexpected_count = 4 - 3,
              unexpected_list = ex_metric_vals ''column_values.decreasing.unexpected_values'',
              unexpected_index_list =
                ex_metric_vals ''column_values.increasing.unexpected_index_list''\<rparr>"
    using validates_index_list_from_increasing_key
      [where metric_vals = ex_metric_vals and d = 3 and n = 4
         and ratio_at_least = "\<lambda>d n m. m * n \<le> d" and format_output = "\<lambda>f args. args"
         and mostly = "1::int" and default_result_format = "''BASIC''"
         and runtime_configuration = None] d n
    by simp
  then show ?thesis
    using d n unfolding e u i by simp
qed

end
